theory Spec2Isabelle
  imports Main "HOL-Library.Sublist"
begin

section \<open>The virtual-environment checker (venv\_checker.py)\<close>

text \<open>
  The script is a \<open>unittest.TestCase\<close> with a \<open>setUp\<close> method, three test methods and
  an overriding \<open>fail\<close> that logs and prints instead of raising. It reads the file system,
  the process environment and the exit status of one \<open>pip show\<close> subprocess per requirement,
  and it writes log records, printed lines and the module-level counter \<open>progress\<close>.

  Everything the script reads is a field of the record \<open>world\<close>; everything it writes is a
  field of the record \<open>state\<close>, passed through every function and returned updated. A method
  returns the exception it raised, if any, together with the state it left behind. The
  world is the same for the whole run: the file system, the environment and the installed
  packages do not change while the three checks run.
\<close>

subsection \<open>Strings\<close>

text \<open>
  A Python string is modelled as a \<open>string\<close> whose characters are the code points
  U+0000 to U+00FF. \<open>isspace\<close> lists the code points in that range for which Python's
  \<open>str.isspace\<close> holds; \<open>str.strip()\<close> removes them from both ends.
\<close>

definition isspace :: "char \<Rightarrow> bool" where
  "isspace c = ((of_char c :: nat) \<in> {9, 10, 11, 12, 13, 28, 29, 30, 31, 32, 133, 160})"

definition strip :: "string \<Rightarrow> string" where
  "strip s = rev (dropWhile isspace (rev (dropWhile isspace s)))"

text \<open>\<open>s.startswith("#")\<close>.\<close>

fun startswith_hash :: "string \<Rightarrow> bool" where
  "startswith_hash [] = False"
| "startswith_hash (c # cs) = (c = CHR ''#'')"

text \<open>\<open>sep.join(xs)\<close>.\<close>

fun join :: "string \<Rightarrow> string list \<Rightarrow> string" where
  "join sep [] = []"
| "join sep [x] = x"
| "join sep (x # y # ys) = x @ sep @ join sep (y # ys)"

text \<open>\<open>str(n)\<close> for the integer that an f-string formats.\<close>

fun str_nat :: "nat \<Rightarrow> string" where
  "str_nat n =
     (if n < 10 then [''0123456789'' ! n]
      else str_nat (n div 10) @ [''0123456789'' ! (n mod 10)])"

declare str_nat.simps [simp del]

definition str_int :: "int \<Rightarrow> string" where
  "str_int i = (if i < 0 then ''-'' @ str_nat (nat (- i)) else str_nat (nat i))"

subsection \<open>What the script reads\<close>

text \<open>
  \<open>requirements.txt\<close> is absent (\<open>os.path.isfile\<close> is false), or present but \<open>open\<close> raises
  \<open>OSError\<close>, or present with the lines that iterating the file object yields (each line
  as read, its line end included).
\<close>

datatype req_file = Absent | Unreadable | Lines "string list"

text \<open>
  The query \<open>[sys.executable, "-m", "pip", "show", package]\<close> either cannot be spawned
  (\<open>subprocess.check_call\<close> raises \<open>OSError\<close>) or exits with a status.
\<close>

datatype spawn_result = SpawnFailed | Exited int

record world =
  venv_isdir :: bool
  virtual_env :: "string option"
  requirements :: req_file
  pip_show :: "string \<Rightarrow> spawn_result"

fun isfile :: "req_file \<Rightarrow> bool" where
  "isfile Absent = False"
| "isfile Unreadable = True"
| "isfile (Lines ls) = True"

subsection \<open>What the script writes\<close>

datatype level = INFO | ERROR

datatype event = Log level string | Print string

record state =
  progress :: int
  out :: "event list"
  spawned :: "string list"

definition initial :: state where
  "initial = \<lparr>progress = 0, out = [], spawned = []\<rparr>"

datatype exn = SkipTest string | CalledProcessError int | OSError

definition emit :: "event \<Rightarrow> state \<Rightarrow> state" where
  "emit e st = st\<lparr>out := out st @ [e]\<rparr>"

definition logging_info :: "string \<Rightarrow> state \<Rightarrow> state" where
  "logging_info m st = emit (Log INFO m) st"

definition logging_error :: "string \<Rightarrow> state \<Rightarrow> state" where
  "logging_error m st = emit (Log ERROR m) st"

definition print :: "string \<Rightarrow> state \<Rightarrow> state" where
  "print m st = emit (Print m) st"

subsection \<open>Module constants\<close>

definition RECOMMENDED_VENV_NAME :: string where
  "RECOMMENDED_VENV_NAME = ''.venv''"

definition RECOMMENDED_REQUIREMENTS_FILE_NAME :: string where
  "RECOMMENDED_REQUIREMENTS_FILE_NAME = ''requirements.txt''"

text \<open>A raw triple-quoted string, given line by line; every line ends in a line feed.\<close>

definition raw_lines :: "string list \<Rightarrow> string" where
  "raw_lines ls = concat (map (\<lambda>l. l @ [CHR 0x0A]) ls)"

definition GUIDE_IF_DOT_VENV_MISSING :: string where
  "GUIDE_IF_DOT_VENV_MISSING = raw_lines
    ['''',
     ''ERROR: Missing .venv folder - HOW TO FIX'',
     ''    Create your local project virtual env and activate it.'',
     ''    Open a terminal in your ROOT PROJECT FOLDER and run each command separately. '',
     '''',
     ''    On Windows, use a PowerShell terminal.'',
     ''       py -m venv .venv'',
     ''       .'' @ [CHR 0x5C] @ ''.venv'' @ [CHR 0x5C] @ ''Scripts'' @ [CHR 0x5C] @ ''activate'',
     ''    On Mac or Linux, use your zsh or bash terminal. '',
     ''       python3 -m venv .venv'',
     ''       source .venv/bin/activate'']"

definition GUIDE_IF_INACTIVE :: string where
  "GUIDE_IF_INACTIVE = raw_lines
    ['''',
     ''ERROR: Local project virtual environment is not active - HOW TO FIX'',
     ''    Create your local project virtual env and activate it.'',
     ''    Open a terminal in your ROOT PROJECT FOLDER and run each command separately. '',
     ''    '',
     ''    On Windows, use a PowerShell terminal.'',
     ''       py -m venv .venv'',
     ''       .'' @ [CHR 0x5C] @ ''.venv'' @ [CHR 0x5C] @ ''Scripts'' @ [CHR 0x5C] @ ''activate'',
     ''    On Mac/Linux, use your zsh or bash terminal. '',
     ''       python3 -m venv .venv'',
     ''       source .venv/bin/activate'',
     '''',
     ''    If activation still fails, ensure you'' @ [CHR 0x27] @
       ''ve installed a current Python version on your machine. '']"

subsection \<open>log\_progress\<close>

definition log_progress :: "state \<Rightarrow> state" where
  "log_progress st =
     (if progress st = 33 then
        logging_info (''Progress: '' @ str_int (progress st) @
                      ''% - You'' @ [CHR 0x27] @ ''re 1/3 done - good start!'') st
      else if progress st = 66 then
        logging_info (''Progress: '' @ str_int (progress st) @
                      ''% - You'' @ [CHR 0x27] @ ''re 2/3 done - almost there!'') st
      else if progress st = 100 then
        logging_info (''Progress: '' @ str_int (progress st) @
                      ''% - 100% completed - all checks passed. Nice work!'') st
      else
        logging_info (''Progress: '' @ str_int (progress st) @ ''%.'') st)"

subsection \<open>The test case\<close>

text \<open>
  The overriding \<open>fail\<close>: one error-level log record and one printed line; it returns
  instead of raising \<open>AssertionError\<close>.
\<close>

definition fail :: "string \<Rightarrow> state \<Rightarrow> state" where
  "fail message st =
     print (''Test Failed: '' @ message) (logging_error (''Test Failed: '' @ message) st)"

definition setUp :: "world \<Rightarrow> state \<Rightarrow> exn option \<times> state" where
  "setUp w st =
     (if \<not> isfile (requirements w) then
        (Some (SkipTest (RECOMMENDED_REQUIREMENTS_FILE_NAME @ '' file is missing.'')),
         logging_error (RECOMMENDED_REQUIREMENTS_FILE_NAME @ '' file is missing.'') st)
      else (None, st))"

definition test_venv_exists :: "world \<Rightarrow> state \<Rightarrow> exn option \<times> state" where
  "test_venv_exists w st =
     (if \<not> venv_isdir w then
        (None,
         fail (''Virtual environment ('' @ RECOMMENDED_VENV_NAME @ '') not found.'')
           (logging_error (RECOMMENDED_VENV_NAME @ '' folder not found.'') st))
      else
        (None,
         log_progress
           (logging_info (RECOMMENDED_VENV_NAME @ '' folder exists.'')
              (st\<lparr>progress := progress st + 33\<rparr>))))"

text \<open>\<open>not os.getenv("VIRTUAL_ENV")\<close>: the variable is unset or the empty string.\<close>

definition getenv_falsy :: "string option \<Rightarrow> bool" where
  "getenv_falsy v = (case v of None \<Rightarrow> True | Some s \<Rightarrow> s = [])"

definition test_venv_is_active :: "world \<Rightarrow> state \<Rightarrow> exn option \<times> state" where
  "test_venv_is_active w st =
     (if getenv_falsy (virtual_env w) then
        (None,
         fail (''Virtual environment is not active. Please activate '' @
               RECOMMENDED_VENV_NAME @ ''.'')
           (logging_error ''Virtual environment is not active.'' st))
      else
        (None,
         log_progress
           (logging_info ''Virtual environment is active.''
              (st\<lparr>progress := progress st + 33\<rparr>))))"

text \<open>
  The list comprehension over the lines of the file:
  \<open>[line.strip() for line in f if line.strip() and not line.strip().startswith("#")]\<close>.
\<close>

fun required_packages :: "string list \<Rightarrow> string list" where
  "required_packages [] = []"
| "required_packages (line # f) =
     (if strip line \<noteq> [] \<and> \<not> startswith_hash (strip line)
      then strip line # required_packages f
      else required_packages f)"

text \<open>
  \<open>subprocess.check_call\<close>: the spawn is attempted (and recorded in \<open>spawned\<close>); it raises
  \<open>OSError\<close> when the process cannot be started and \<open>CalledProcessError\<close> when the exit
  status is not zero.
\<close>

definition check_call :: "world \<Rightarrow> string \<Rightarrow> state \<Rightarrow> exn option \<times> state" where
  "check_call w package st =
     (let st' = st\<lparr>spawned := spawned st @ [package]\<rparr> in
      case pip_show w package of
        SpawnFailed \<Rightarrow> (Some OSError, st')
      | Exited rc \<Rightarrow> (if rc = 0 then (None, st') else (Some (CalledProcessError rc), st')))"

text \<open>
  The loop over \<open>required_packages\<close>. Only \<open>CalledProcessError\<close> is caught; any other
  exception leaves the loop and the test method.
\<close>

fun check_packages ::
  "world \<Rightarrow> string list \<Rightarrow> string list \<Rightarrow> state \<Rightarrow> exn option \<times> string list \<times> state" where
  "check_packages w [] missing_packages st = (None, missing_packages, st)"
| "check_packages w (package # rest) missing_packages st =
     (case check_call w package st of
        (None, st') \<Rightarrow>
          check_packages w rest missing_packages
            (logging_info (''Required '' @ package @ '' is installed.'') st')
      | (Some (CalledProcessError rc), st') \<Rightarrow>
          check_packages w rest (missing_packages @ [package]) st'
      | (Some e, st') \<Rightarrow> (Some e, missing_packages, st'))"

text \<open>
  The test method of the dependency check. The first case is the branch
  \<open>if not os.path.isfile(self.requirements_file)\<close>, the second is \<open>open\<close> raising, and the
  third reads the lines, runs the loop and decides on \<open>missing_packages\<close>.
\<close>

definition test_requirements_installed :: "world \<Rightarrow> state \<Rightarrow> exn option \<times> state" where
  "test_requirements_installed w st =
     (case requirements w of
        Absent \<Rightarrow>
          (Some (SkipTest (RECOMMENDED_REQUIREMENTS_FILE_NAME @
                           '' is missing, cannot verify installed packages.'')),
           logging_error (RECOMMENDED_REQUIREMENTS_FILE_NAME @ '' is missing.'') st)
      | Unreadable \<Rightarrow> (Some OSError, st)
      | Lines f \<Rightarrow>
          (case check_packages w (required_packages f) [] st of
             (Some e, missing_packages, st') \<Rightarrow> (Some e, st')
           | (None, missing_packages, st') \<Rightarrow>
               if missing_packages \<noteq> [] then
                 (None,
                  fail (''Some packages from '' @ RECOMMENDED_REQUIREMENTS_FILE_NAME @
                        '' are not installed in the virtual environment.'')
                    (logging_error
                       (''Missing required packages: '' @ join '', '' missing_packages) st'))
               else
                 (None,
                  log_progress
                    (logging_info
                       (''All packages in '' @ RECOMMENDED_REQUIREMENTS_FILE_NAME @
                        '' are installed.'')
                       (st'\<lparr>progress := progress st' + 34\<rparr>)))))"

subsection \<open>The unittest runner\<close>

text \<open>
  For each test method the runner calls \<open>setUp\<close> and, if that returns, the method. A
  \<open>SkipTest\<close> from either is recorded as a skip, any other exception as an error, and a
  normal return as a success; the runner then goes on to the next method. The methods run
  in the alphabetical order of their names.
\<close>

datatype outcome = Success | Skipped string | Errored exn

fun record_outcome :: "exn option \<Rightarrow> outcome" where
  "record_outcome None = Success"
| "record_outcome (Some (SkipTest reason)) = Skipped reason"
| "record_outcome (Some e) = Errored e"

definition run_test ::
  "(world \<Rightarrow> state \<Rightarrow> exn option \<times> state) \<Rightarrow> world \<Rightarrow> state \<Rightarrow> outcome \<times> state" where
  "run_test test_method w st =
     (case setUp w st of
        (Some e, st') \<Rightarrow> (record_outcome (Some e), st')
      | (None, st') \<Rightarrow>
          (case test_method w st' of (r, st'') \<Rightarrow> (record_outcome r, st'')))"

definition main :: "world \<Rightarrow> outcome list \<times> state" where
  "main w =
     (case run_test test_requirements_installed w initial of (o1, s1) \<Rightarrow>
      case run_test test_venv_exists w s1 of (o2, s2) \<Rightarrow>
      case run_test test_venv_is_active w s2 of (o3, s3) \<Rightarrow>
        ([o1, o2, o3], s3))"

subsection \<open>What a check did\<close>

text \<open>
  The records a method added to the output, and its result as the user sees it: a check
  that returned normally has failed when it called \<open>fail\<close> (a line starting with
  \<open>Test Failed: \<close> was printed) and has passed otherwise.
\<close>

definition emitted :: "state \<Rightarrow> state \<Rightarrow> event list" where
  "emitted st st' = drop (length (out st)) (out st')"

fun reports_failure :: "event \<Rightarrow> bool" where
  "reports_failure (Print m) = (take 13 m = ''Test Failed: '')"
| "reports_failure (Log l m) = False"

datatype check_result = CheckPassed | CheckFailed | CheckSkipped | CheckErrored

definition check_result ::
  "(world \<Rightarrow> state \<Rightarrow> exn option \<times> state) \<Rightarrow> world \<Rightarrow> state \<Rightarrow> check_result" where
  "check_result test_method w st =
     (case run_test test_method w st of
        (Success, st') \<Rightarrow>
          if list_ex reports_failure (emitted st st') then CheckFailed else CheckPassed
      | (Skipped reason, st') \<Rightarrow> CheckSkipped
      | (Errored e, st') \<Rightarrow> CheckErrored)"

text \<open>The log record of an installed package, as the loop writes it.\<close>

definition installed_record :: "string \<Rightarrow> event" where
  "installed_record package = Log INFO (''Required '' @ package @ '' is installed.'')"

subsection \<open>Example projects\<close>

text \<open>
  A project with an activated \<open>.venv\<close> whose requirements file lists \<open>requests\<close>
  (installed) and \<open>flask\<close> (not installed) between a comment and a blank line.
\<close>

definition scenario_world :: world where
  "scenario_world =
     \<lparr>venv_isdir = True,
      virtual_env = Some ''/home/user/project/.venv'',
      requirements = Lines [''requests'' @ [CHR 0x0A], ''# comment'' @ [CHR 0x0A],
                            [CHR 0x0A], ''flask'' @ [CHR 0x0A]],
      pip_show = (\<lambda>package. if package = ''requests'' then Exited 0 else Exited 1)\<rparr>"

text \<open>The same project with every listed package installed.\<close>

definition installed_world :: world where
  "installed_world = scenario_world\<lparr>pip_show := (\<lambda>package. Exited 0)\<rparr>"

text \<open>The same project where no query process can be started.\<close>

definition no_spawn_world :: world where
  "no_spawn_world = scenario_world\<lparr>pip_show := (\<lambda>package. SpawnFailed)\<rparr>"

section \<open>Basic facts\<close>

lemma emit_fields [simp]:
  "out (emit e st) = out st @ [e]"
  "progress (emit e st) = progress st"
  "spawned (emit e st) = spawned st"
  by (simp_all add: emit_def)

lemma logging_fields [simp]:
  "out (logging_info m st) = out st @ [Log INFO m]"
  "progress (logging_info m st) = progress st"
  "spawned (logging_info m st) = spawned st"
  "out (logging_error m st) = out st @ [Log ERROR m]"
  "progress (logging_error m st) = progress st"
  "spawned (logging_error m st) = spawned st"
  "out (print m st) = out st @ [Print m]"
  "progress (print m st) = progress st"
  "spawned (print m st) = spawned st"
  by (simp_all add: logging_info_def logging_error_def print_def)

lemma fail_fields [simp]:
  "out (fail m st) =
     out st @ [Log ERROR (''Test Failed: '' @ m), Print (''Test Failed: '' @ m)]"
  "progress (fail m st) = progress st"
  "spawned (fail m st) = spawned st"
  by (simp_all add: fail_def)

lemma log_progress_fields [simp]:
  "progress (log_progress st) = progress st"
  "spawned (log_progress st) = spawned st"
  by (simp_all add: log_progress_def)

lemma log_progress_out: "\<exists>m. out (log_progress st) = out st @ [Log INFO m]"
  by (simp add: log_progress_def)

lemma emitted_append [simp]: "out st' = out st @ es \<Longrightarrow> emitted st st' = es"
  by (simp add: emitted_def)

lemma state_eqI:
  fixes s t :: state
  shows "progress s = progress t \<Longrightarrow> out s = out t \<Longrightarrow> spawned s = spawned t \<Longrightarrow> s = t"
  by simp

subsection \<open>The query loop\<close>

lemma check_packages_all_spawned:
  assumes "\<forall>p \<in> set ps. pip_show w p \<noteq> SpawnFailed"
  shows "check_packages w ps missing st =
           (None,
            missing @ filter (\<lambda>p. pip_show w p \<noteq> Exited 0) ps,
            st\<lparr>out := out st @ map installed_record (filter (\<lambda>p. pip_show w p = Exited 0) ps),
               spawned := spawned st @ ps\<rparr>)"
  using assms
proof (induction ps arbitrary: missing st)
  case Nil
  then show ?case by simp
next
  case (Cons p ps)
  then have rest: "\<forall>q \<in> set ps. pip_show w q \<noteq> SpawnFailed" by simp
  from Cons.prems obtain rc where rc: "pip_show w p = Exited rc"
    by (cases "pip_show w p") auto
  show ?case
  proof (cases "rc = 0")
    case True
    with rc show ?thesis
      by (simp add: check_call_def Cons.IH [OF rest] installed_record_def
            logging_info_def emit_def)
  next
    case False
    with rc show ?thesis
      by (simp add: check_call_def Cons.IH [OF rest])
  qed
qed

lemma check_packages_spawn_failure:
  assumes "\<exists>p \<in> set ps. pip_show w p = SpawnFailed"
  shows "\<exists>missing' st'. check_packages w ps missing st = (Some OSError, missing', st') \<and>
           progress st' = progress st"
  using assms
proof (induction ps arbitrary: missing st)
  case Nil
  then show ?case by simp
next
  case (Cons p ps)
  show ?case
  proof (cases "pip_show w p")
    case SpawnFailed
    then show ?thesis by (simp add: check_call_def)
  next
    case (Exited rc)
    with Cons.prems have rest: "\<exists>q \<in> set ps. pip_show w q = SpawnFailed" by auto
    show ?thesis
    proof (cases "rc = 0")
      case True
      with Exited Cons.IH [OF rest, of missing
          "logging_info (''Required '' @ p @ '' is installed.'') (st\<lparr>spawned := spawned st @ [p]\<rparr>)"]
      show ?thesis by (simp add: check_call_def)
    next
      case False
      with Exited Cons.IH [OF rest, of "missing @ [p]" "st\<lparr>spawned := spawned st @ [p]\<rparr>"]
      show ?thesis by (simp add: check_call_def)
    qed
  qed
qed

subsection \<open>The result of each check, from what the script reads\<close>

lemma run_test_absent:
  assumes "requirements w = Absent"
  shows "run_test test_method w st =
           (Skipped ''requirements.txt file is missing.'',
            logging_error ''requirements.txt file is missing.'' st)"
  using assms
  by (simp add: run_test_def setUp_def RECOMMENDED_REQUIREMENTS_FILE_NAME_def)

lemma check_result_absent:
  assumes "requirements w = Absent"
  shows "check_result test_method w st = CheckSkipped"
  by (simp add: check_result_def run_test_absent [OF assms])

lemma run_test_present:
  assumes "isfile (requirements w)"
  shows "run_test test_method w st = (record_outcome (fst (test_method w st)), snd (test_method w st))"
  using assms by (simp add: run_test_def setUp_def split: prod.splits)

lemma no_failure_log_progress:
  "\<not> list_ex reports_failure (emitted st (log_progress (logging_info m (st\<lparr>progress := k\<rparr>))))"
  by (simp add: emitted_def log_progress_def)

lemma no_failure_installed_records:
  "\<not> list_ex reports_failure
       (emitted st (log_progress (logging_info m
          (st\<lparr>out := out st @ map installed_record ps, spawned := sp, progress := k\<rparr>))))"
  by (auto simp add: emitted_def log_progress_def list_ex_iff installed_record_def)

lemma check_result_venv_exists:
  "check_result test_venv_exists w st =
     (if \<not> isfile (requirements w) then CheckSkipped
      else if venv_isdir w then CheckPassed else CheckFailed)"
proof (cases "isfile (requirements w)")
  case False
  then have "requirements w = Absent" by (cases "requirements w") auto
  with False show ?thesis by (simp add: check_result_absent)
next
  case True
  show ?thesis
  proof (cases "venv_isdir w")
    case True
    with \<open>isfile (requirements w)\<close> show ?thesis
      by (simp add: check_result_def run_test_present test_venv_exists_def
            no_failure_log_progress)
  next
    case False
    with \<open>isfile (requirements w)\<close> show ?thesis
      by (simp add: check_result_def run_test_present test_venv_exists_def emitted_def)
  qed
qed

lemma check_result_venv_is_active:
  "check_result test_venv_is_active w st =
     (if \<not> isfile (requirements w) then CheckSkipped
      else if getenv_falsy (virtual_env w) then CheckFailed else CheckPassed)"
proof (cases "isfile (requirements w)")
  case False
  then have "requirements w = Absent" by (cases "requirements w") auto
  with False show ?thesis by (simp add: check_result_absent)
next
  case True
  show ?thesis
  proof (cases "getenv_falsy (virtual_env w)")
    case True
    with \<open>isfile (requirements w)\<close> show ?thesis
      by (simp add: check_result_def run_test_present test_venv_is_active_def emitted_def)
  next
    case False
    with \<open>isfile (requirements w)\<close> show ?thesis
      by (simp add: check_result_def run_test_present test_venv_is_active_def
            no_failure_log_progress)
  qed
qed

text \<open>The dependency check, when every query could be spawned.\<close>

lemma test_requirements_installed_all_spawned:
  assumes "requirements w = Lines f"
    and "\<forall>p \<in> set (required_packages f). pip_show w p \<noteq> SpawnFailed"
  shows "test_requirements_installed w st =
     (let st' = st\<lparr>out := out st @ map installed_record
                                      (filter (\<lambda>p. pip_show w p = Exited 0) (required_packages f)),
                    spawned := spawned st @ required_packages f\<rparr>;
          missing_packages = filter (\<lambda>p. pip_show w p \<noteq> Exited 0) (required_packages f)
      in if missing_packages \<noteq> [] then
           (None,
            fail ''Some packages from requirements.txt are not installed in the virtual environment.''
              (logging_error (''Missing required packages: '' @ join '', '' missing_packages) st'))
         else
           (None,
            log_progress
              (logging_info ''All packages in requirements.txt are installed.''
                 (st'\<lparr>progress := progress st' + 34\<rparr>))))"
  using assms
  by (simp add: test_requirements_installed_def check_packages_all_spawned
        RECOMMENDED_REQUIREMENTS_FILE_NAME_def Let_def)

lemma check_result_requirements_installed:
  "check_result test_requirements_installed w st =
     (case requirements w of
        Absent \<Rightarrow> CheckSkipped
      | Unreadable \<Rightarrow> CheckErrored
      | Lines f \<Rightarrow>
          if \<exists>p \<in> set (required_packages f). pip_show w p = SpawnFailed then CheckErrored
          else if \<forall>p \<in> set (required_packages f). pip_show w p = Exited 0 then CheckPassed
          else CheckFailed)"
proof (cases "requirements w")
  case Absent
  then show ?thesis by (simp add: check_result_absent)
next
  case Unreadable
  then show ?thesis
    by (simp add: check_result_def run_test_present test_requirements_installed_def)
next
  case (Lines f)
  show ?thesis
  proof (cases "\<exists>p \<in> set (required_packages f). pip_show w p = SpawnFailed")
    case True
    from check_packages_spawn_failure [OF True, of "[]" st]
    obtain missing' st' where
      "check_packages w (required_packages f) [] st = (Some OSError, missing', st')"
      by blast
    with Lines True show ?thesis
      by (simp add: check_result_def run_test_present test_requirements_installed_def)
  next
    case False
    then have ok: "\<forall>p \<in> set (required_packages f). pip_show w p \<noteq> SpawnFailed" by simp
    show ?thesis
    proof (cases "\<forall>p \<in> set (required_packages f). pip_show w p = Exited 0")
      case True
      then have "filter (\<lambda>p. pip_show w p \<noteq> Exited 0) (required_packages f) = []"
        by (simp add: filter_empty_conv)
      with Lines False True show ?thesis
        by (simp add: check_result_def run_test_present
              test_requirements_installed_all_spawned [OF Lines ok]
              no_failure_installed_records)
    next
      case someMissing: False
      then have "filter (\<lambda>p. pip_show w p \<noteq> Exited 0) (required_packages f) \<noteq> []"
        by (simp add: filter_empty_conv)
      with Lines False someMissing show ?thesis
        by (simp add: check_result_def run_test_present
              test_requirements_installed_all_spawned [OF Lines ok] emitted_def Let_def)
    qed
  qed
qed

text \<open>What each check adds to the counter.\<close>

lemma progress_venv_exists:
  "progress (snd (run_test test_venv_exists w st)) =
     progress st + (if check_result test_venv_exists w st = CheckPassed then 33 else 0)"
proof (cases "requirements w")
  case Absent
  then show ?thesis by (simp add: run_test_absent check_result_absent)
qed (simp_all add: run_test_present check_result_venv_exists test_venv_exists_def)

lemma progress_venv_is_active:
  "progress (snd (run_test test_venv_is_active w st)) =
     progress st + (if check_result test_venv_is_active w st = CheckPassed then 33 else 0)"
proof (cases "requirements w")
  case Absent
  then show ?thesis by (simp add: run_test_absent check_result_absent)
qed (simp_all add: run_test_present check_result_venv_is_active test_venv_is_active_def)

lemma progress_requirements_installed:
  "progress (snd (run_test test_requirements_installed w st)) =
     progress st + (if check_result test_requirements_installed w st = CheckPassed then 34 else 0)"
proof (cases "requirements w")
  case Absent
  then show ?thesis by (simp add: run_test_absent check_result_absent)
next
  case Unreadable
  then show ?thesis
    by (simp add: run_test_present check_result_requirements_installed
          test_requirements_installed_def)
next
  case (Lines f)
  show ?thesis
  proof (cases "\<exists>p \<in> set (required_packages f). pip_show w p = SpawnFailed")
    case True
    from check_packages_spawn_failure [OF True, of "[]" st]
    obtain missing' st' where
      "check_packages w (required_packages f) [] st = (Some OSError, missing', st')"
      and "progress st' = progress st"
      by blast
    with Lines True show ?thesis
      by (simp add: run_test_present check_result_requirements_installed
            test_requirements_installed_def)
  next
    case False
    then have ok: "\<forall>p \<in> set (required_packages f). pip_show w p \<noteq> SpawnFailed" by simp
    have "filter (\<lambda>p. pip_show w p \<noteq> Exited 0) (required_packages f) = [] \<longleftrightarrow>
            (\<forall>p \<in> set (required_packages f). pip_show w p = Exited 0)"
      by (simp add: filter_empty_conv)
    with Lines False show ?thesis
      by (simp add: run_test_present check_result_requirements_installed
            test_requirements_installed_all_spawned [OF Lines ok] Let_def)
  qed
qed

lemma progress_main:
  "progress (snd (main w)) =
     (if check_result test_requirements_installed w s3 = CheckPassed then 34 else 0) +
     (if check_result test_venv_exists w s1 = CheckPassed then 33 else 0) +
     (if check_result test_venv_is_active w s2 = CheckPassed then 33 else 0)"
proof -
  obtain o1 t1 where r1: "run_test test_requirements_installed w initial = (o1, t1)"
    by (cases "run_test test_requirements_installed w initial")
  obtain o2 t2 where r2: "run_test test_venv_exists w t1 = (o2, t2)"
    by (cases "run_test test_venv_exists w t1")
  obtain o3 t3 where r3: "run_test test_venv_is_active w t2 = (o3, t3)"
    by (cases "run_test test_venv_is_active w t2")
  have p1: "progress t1 =
      (if check_result test_requirements_installed w s3 = CheckPassed then 34 else 0)"
    using progress_requirements_installed [of w initial] r1
    by (simp add: check_result_requirements_installed initial_def)
  have p2: "progress t2 =
      progress t1 + (if check_result test_venv_exists w s1 = CheckPassed then 33 else 0)"
    using progress_venv_exists [of w t1] r2 by (simp add: check_result_venv_exists)
  have p3: "progress t3 =
      progress t2 + (if check_result test_venv_is_active w s2 = CheckPassed then 33 else 0)"
    using progress_venv_is_active [of w t2] r3 by (simp add: check_result_venv_is_active)
  have "snd (main w) = t3" by (simp add: main_def r1 r2 r3)
  with p1 p2 p3 show ?thesis by simp
qed

text \<open>The dependency check when every query was spawned and some package is missing.\<close>

lemma run_test_requirements_missing:
  assumes "requirements w = Lines f"
    and "\<forall>p \<in> set (required_packages f). pip_show w p \<noteq> SpawnFailed"
    and "\<exists>p \<in> set (required_packages f). pip_show w p \<noteq> Exited 0"
  shows "run_test test_requirements_installed w st =
     (Success,
      st\<lparr>out := out st @
                map installed_record
                  (filter (\<lambda>p. pip_show w p = Exited 0) (required_packages f)) @
                [Log ERROR (''Missing required packages: '' @
                            join '', '' (filter (\<lambda>p. pip_show w p \<noteq> Exited 0)
                                          (required_packages f))),
                 Log ERROR ''Test Failed: Some packages from requirements.txt are not installed in the virtual environment.'',
                 Print ''Test Failed: Some packages from requirements.txt are not installed in the virtual environment.''],
         spawned := spawned st @ required_packages f\<rparr>)"
proof -
  from assms(3) have "filter (\<lambda>p. pip_show w p \<noteq> Exited 0) (required_packages f) \<noteq> []"
    by (simp add: filter_empty_conv)
  with assms(1) show ?thesis
    by (simp add: run_test_present test_requirements_installed_all_spawned [OF assms(1,2)]
          Let_def fail_def logging_error_def print_def emit_def)
qed

lemma outcome_requirements_installed:
  "fst (run_test test_requirements_installed w st) =
     (case requirements w of
        Absent \<Rightarrow> Skipped ''requirements.txt file is missing.''
      | Unreadable \<Rightarrow> Errored OSError
      | Lines f \<Rightarrow>
          if \<exists>p \<in> set (required_packages f). pip_show w p = SpawnFailed
          then Errored OSError else Success)"
proof (cases "requirements w")
  case Absent
  then show ?thesis by (simp add: run_test_absent)
next
  case Unreadable
  then show ?thesis by (simp add: run_test_present test_requirements_installed_def)
next
  case (Lines f)
  show ?thesis
  proof (cases "\<exists>p \<in> set (required_packages f). pip_show w p = SpawnFailed")
    case True
    from check_packages_spawn_failure [OF True, of "[]" st]
    obtain missing' st' where
      "check_packages w (required_packages f) [] st = (Some OSError, missing', st')"
      by blast
    with Lines True show ?thesis
      by (simp add: run_test_present test_requirements_installed_def)
  next
    case False
    then have ok: "\<forall>p \<in> set (required_packages f). pip_show w p \<noteq> SpawnFailed" by simp
    from Lines False show ?thesis
      by (simp add: run_test_present test_requirements_installed_all_spawned [OF Lines ok]
            Let_def)
  qed
qed

lemma outcome_venv_checks:
  "fst (run_test test_venv_exists w st) =
     (if isfile (requirements w) then Success else Skipped ''requirements.txt file is missing.'')"
  "fst (run_test test_venv_is_active w st) =
     (if isfile (requirements w) then Success else Skipped ''requirements.txt file is missing.'')"
  by (cases "requirements w";
      simp add: run_test_absent run_test_present test_venv_exists_def test_venv_is_active_def)+

section \<open>The claims\<close>

text \<open>
  C6. Parsing the requirements file strips each line, drops the lines that are empty after
  stripping and those whose stripped form starts with \<open>#\<close>, and keeps the remaining
  lines in their order; the lines \<open>requests\<close>, \<open># comment\<close>, the empty line and
  \<open>flask\<close> give exactly \<open>requests\<close>, \<open>flask\<close>.
\<close>

theorem required_packages_parse:
  "required_packages f = filter (\<lambda>s. s \<noteq> [] \<and> \<not> startswith_hash s) (map strip f) \<and>
   subseq (required_packages f) (map strip f) \<and>
   required_packages [''requests'', ''# comment'', '''', ''flask''] = [''requests'', ''flask'']"
proof -
  have eq: "required_packages g = filter (\<lambda>s. s \<noteq> [] \<and> \<not> startswith_hash s) (map strip g)"
    for g
    by (induction g) simp_all
  have "subseq (required_packages f) (map strip f)"
    unfolding eq by (rule subseq_filter_left)
  moreover have
    "required_packages [''requests'', ''# comment'', '''', ''flask''] = [''requests'', ''flask'']"
    by (simp add: strip_def isspace_def)
  ultimately show ?thesis using eq [of f] by simp
qed

theorem required_packages_parse_witness:
  "required_packages [''  requests '' @ [CHR 0x0A], ''   # comment'' @ [CHR 0x0A],
                      [CHR 0x09, CHR 0x0A], ''flask'' @ [CHR 0x0D, CHR 0x0A]] =
     [''requests'', ''flask'']"
proof -
  from required_packages_parse
         [of "[''  requests '' @ [CHR 0x0A], ''   # comment'' @ [CHR 0x0A],
               [CHR 0x09, CHR 0x0A], ''flask'' @ [CHR 0x0D, CHR 0x0A]]"]
  have "required_packages [''  requests '' @ [CHR 0x0A], ''   # comment'' @ [CHR 0x0A],
                           [CHR 0x09, CHR 0x0A], ''flask'' @ [CHR 0x0D, CHR 0x0A]] =
        filter (\<lambda>s. s \<noteq> [] \<and> \<not> startswith_hash s)
          (map strip [''  requests '' @ [CHR 0x0A], ''   # comment'' @ [CHR 0x0A],
                      [CHR 0x09, CHR 0x0A], ''flask'' @ [CHR 0x0D, CHR 0x0A]])"
    by (rule conjunct1)
  also have "\<dots> = [''requests'', ''flask'']"
    by (simp add: strip_def isspace_def)
  finally show ?thesis .
qed

text \<open>
  C8. When the requirements file exists and every line of it is blank or a comment, the
  list of required packages is empty, the query loop spawns nothing and reports no missing
  package, and the dependency check passes.
\<close>

theorem comment_only_requirements_pass:
  assumes "requirements w = Lines f"
    and "\<forall>line \<in> set f. strip line = [] \<or> startswith_hash (strip line)"
  shows "required_packages f = [] \<and>
         check_packages w (required_packages f) [] st = (None, [], st) \<and>
         run_test test_requirements_installed w st =
           (Success,
            log_progress
              (logging_info ''All packages in requirements.txt are installed.''
                 (st\<lparr>progress := progress st + 34\<rparr>))) \<and>
         spawned (snd (run_test test_requirements_installed w st)) = spawned st \<and>
         check_result test_requirements_installed w st = CheckPassed"
proof -
  from assms(2) have empty: "required_packages f = []"
    by (induction f) auto
  have run: "run_test test_requirements_installed w st =
           (Success,
            log_progress
              (logging_info ''All packages in requirements.txt are installed.''
                 (st\<lparr>progress := progress st + 34\<rparr>)))"
    using assms(1) empty
    by (simp add: run_test_present test_requirements_installed_def
          RECOMMENDED_REQUIREMENTS_FILE_NAME_def)
  have "check_result test_requirements_installed w st = CheckPassed"
    using assms(1) empty by (simp add: check_result_requirements_installed)
  with empty run show ?thesis by simp
qed

theorem comment_only_requirements_pass_witness:
  "run_test test_requirements_installed
     (scenario_world\<lparr>requirements := Lines [''# numpy'' @ [CHR 0x0A], ''   '', [CHR 0x0A]]\<rparr>)
     initial =
     (Success,
      \<lparr>progress = 34,
       out = [Log INFO ''All packages in requirements.txt are installed.'',
              Log INFO ''Progress: 34%.''],
       spawned = []\<rparr>)"
proof -
  have h1: "requirements
      (scenario_world\<lparr>requirements := Lines [''# numpy'' @ [CHR 0x0A], ''   '', [CHR 0x0A]]\<rparr>) =
      Lines [''# numpy'' @ [CHR 0x0A], ''   '', [CHR 0x0A]]"
    by simp
  have h2: "\<forall>line \<in> set [''# numpy'' @ [CHR 0x0A], ''   '', [CHR 0x0A]].
              strip line = [] \<or> startswith_hash (strip line)"
    by (simp add: strip_def isspace_def)
  from comment_only_requirements_pass [OF h1 h2, of initial]
  have "run_test test_requirements_installed
     (scenario_world\<lparr>requirements := Lines [''# numpy'' @ [CHR 0x0A], ''   '', [CHR 0x0A]]\<rparr>)
     initial =
     (Success,
      log_progress
        (logging_info ''All packages in requirements.txt are installed.''
           (initial\<lparr>progress := progress initial + 34\<rparr>)))"
    by simp
  also have "log_progress
        (logging_info ''All packages in requirements.txt are installed.''
           (initial\<lparr>progress := progress initial + 34\<rparr>)) =
      \<lparr>progress = 34,
       out = [Log INFO ''All packages in requirements.txt are installed.'',
              Log INFO ''Progress: 34%.''],
       spawned = []\<rparr>"
    by (simp add: initial_def log_progress_def logging_info_def emit_def str_int_def
          str_nat.simps)
  finally show ?thesis .
qed

text \<open>
  C3. When the requirements file is absent, the dependency check is recorded as skipped:
  no failure is reported anywhere in the run, and the run spawns no package query. The
  test method on its own takes its skip branch as well, before any query.
\<close>

theorem absent_requirements_skipped:
  assumes "requirements w = Absent"
  shows "fst (run_test test_requirements_installed w st) =
           Skipped ''requirements.txt file is missing.'' \<and>
         check_result test_requirements_installed w st = CheckSkipped \<and>
         spawned (snd (run_test test_requirements_installed w st)) = spawned st \<and>
         \<not> list_ex reports_failure (out (snd (main w))) \<and>
         spawned (snd (main w)) = [] \<and>
         test_requirements_installed w st =
           (Some (SkipTest ''requirements.txt is missing, cannot verify installed packages.''),
            logging_error ''requirements.txt is missing.'' st)"
proof -
  have "test_requirements_installed w st =
           (Some (SkipTest ''requirements.txt is missing, cannot verify installed packages.''),
            logging_error ''requirements.txt is missing.'' st)"
    using assms
    by (simp add: test_requirements_installed_def RECOMMENDED_REQUIREMENTS_FILE_NAME_def)
  moreover have "\<not> list_ex reports_failure (out (snd (main w)))" "spawned (snd (main w)) = []"
    by (simp_all add: main_def run_test_absent [OF assms] initial_def)
  ultimately show ?thesis
    by (simp add: run_test_absent [OF assms] check_result_absent [OF assms])
qed

theorem absent_requirements_skipped_witness:
  "check_result test_requirements_installed (scenario_world\<lparr>requirements := Absent\<rparr>) initial =
     CheckSkipped \<and>
   spawned (snd (main (scenario_world\<lparr>requirements := Absent\<rparr>))) = []"
proof -
  have h: "requirements (scenario_world\<lparr>requirements := Absent\<rparr>) = Absent" by simp
  from absent_requirements_skipped [OF h, of initial] show ?thesis by blast
qed

text \<open>
  C10. When the requirements file is absent, \<open>setUp\<close> skips every test method: whatever
  that method is, it is not called, the runner records a skip, and the only effect is the
  error-level record of \<open>setUp\<close>. So the whole run records three skips, and the counter
  stays at 0 even when the folder exists and the environment is active.
\<close>

theorem absent_requirements_skips_every_check:
  assumes "requirements w = Absent"
  shows "run_test test_method w st =
           (Skipped ''requirements.txt file is missing.'',
            st\<lparr>out := out st @ [Log ERROR ''requirements.txt file is missing.'']\<rparr>) \<and>
         check_result test_venv_exists w st = CheckSkipped \<and>
         check_result test_venv_is_active w st = CheckSkipped \<and>
         check_result test_requirements_installed w st = CheckSkipped \<and>
         main w =
           ([Skipped ''requirements.txt file is missing.'',
             Skipped ''requirements.txt file is missing.'',
             Skipped ''requirements.txt file is missing.''],
            \<lparr>progress = 0,
             out = [Log ERROR ''requirements.txt file is missing.'',
                    Log ERROR ''requirements.txt file is missing.'',
                    Log ERROR ''requirements.txt file is missing.''],
             spawned = []\<rparr>)"
proof -
  have "main w =
           ([Skipped ''requirements.txt file is missing.'',
             Skipped ''requirements.txt file is missing.'',
             Skipped ''requirements.txt file is missing.''],
            \<lparr>progress = 0,
             out = [Log ERROR ''requirements.txt file is missing.'',
                    Log ERROR ''requirements.txt file is missing.'',
                    Log ERROR ''requirements.txt file is missing.''],
             spawned = []\<rparr>)"
    by (simp add: main_def run_test_absent [OF assms] initial_def logging_error_def emit_def)
  then show ?thesis
    by (simp add: run_test_absent [OF assms] check_result_absent [OF assms]
          logging_error_def emit_def)
qed

theorem absent_requirements_skips_every_check_witness:
  "venv_isdir (scenario_world\<lparr>requirements := Absent\<rparr>) \<and>
   \<not> getenv_falsy (virtual_env (scenario_world\<lparr>requirements := Absent\<rparr>)) \<and>
   check_result test_venv_exists (scenario_world\<lparr>requirements := Absent\<rparr>) initial =
     CheckSkipped \<and>
   check_result test_venv_is_active (scenario_world\<lparr>requirements := Absent\<rparr>) initial =
     CheckSkipped \<and>
   progress (snd (main (scenario_world\<lparr>requirements := Absent\<rparr>))) = 0"
proof -
  have h: "requirements (scenario_world\<lparr>requirements := Absent\<rparr>) = Absent" by simp
  have "venv_isdir (scenario_world\<lparr>requirements := Absent\<rparr>)"
    "\<not> getenv_falsy (virtual_env (scenario_world\<lparr>requirements := Absent\<rparr>))"
    by (simp_all add: scenario_world_def getenv_falsy_def)
  with absent_requirements_skips_every_check [OF h, of test_venv_exists initial]
  show ?thesis by simp
qed

text \<open>
  C5. The counter ends at 100 exactly when all three checks pass: the existence check and
  the activation check add 33 each and the dependency check adds 34 when they pass, and a
  check that does not pass adds nothing.
\<close>

theorem progress_100_iff_all_pass:
  "(progress (snd (main w)) = 100 \<longleftrightarrow>
      check_result test_venv_exists w s1 = CheckPassed \<and>
      check_result test_venv_is_active w s2 = CheckPassed \<and>
      check_result test_requirements_installed w s3 = CheckPassed) \<and>
   progress (snd (run_test test_venv_exists w st)) =
     progress st + (if check_result test_venv_exists w st = CheckPassed then 33 else 0) \<and>
   progress (snd (run_test test_venv_is_active w st)) =
     progress st + (if check_result test_venv_is_active w st = CheckPassed then 33 else 0) \<and>
   progress (snd (run_test test_requirements_installed w st)) =
     progress st +
     (if check_result test_requirements_installed w st = CheckPassed then 34 else 0)"
proof -
  have "progress (snd (main w)) = 100 \<longleftrightarrow>
      check_result test_venv_exists w s1 = CheckPassed \<and>
      check_result test_venv_is_active w s2 = CheckPassed \<and>
      check_result test_requirements_installed w s3 = CheckPassed"
    by (simp add: progress_main [of w s3 s1 s2])
  then show ?thesis
    using progress_venv_exists [of w st] progress_venv_is_active [of w st]
      progress_requirements_installed [of w st]
    by simp
qed

theorem progress_100_iff_all_pass_witness:
  "progress (snd (main installed_world)) = 100 \<and>
   progress (snd (main scenario_world)) = 66"
proof -
  have r: "check_result test_requirements_installed installed_world initial = CheckPassed"
    "check_result test_requirements_installed scenario_world initial = CheckFailed"
    by (simp_all add: check_result_requirements_installed installed_world_def
          scenario_world_def strip_def isspace_def)
  have e: "check_result test_venv_exists installed_world initial = CheckPassed"
    "check_result test_venv_exists scenario_world initial = CheckPassed"
    by (simp_all add: check_result_venv_exists installed_world_def scenario_world_def)
  have a: "check_result test_venv_is_active installed_world initial = CheckPassed"
    "check_result test_venv_is_active scenario_world initial = CheckPassed"
    by (simp_all add: check_result_venv_is_active installed_world_def scenario_world_def
          getenv_falsy_def)
  from progress_100_iff_all_pass [of installed_world initial initial initial initial] r e a
  have "progress (snd (main installed_world)) = 100" by blast
  moreover have "progress (snd (main scenario_world)) = 66"
    using progress_main [of scenario_world initial initial initial] r e a by simp
  ultimately show ?thesis by simp
qed



text \<open>
  C7, as the claim states it, fails: with the requirements file absent the activation
  check is skipped, so it does not pass although \<open>VIRTUAL_ENV\<close> is set and non-empty, and
  it does not fail although \<open>VIRTUAL_ENV\<close> is unset.
\<close>

theorem activation_check_skipped_counterexample:
  "virtual_env (scenario_world\<lparr>requirements := Absent\<rparr>) = Some ''/home/user/project/.venv'' \<and>
   check_result test_venv_is_active (scenario_world\<lparr>requirements := Absent\<rparr>) initial \<noteq>
     CheckPassed \<and>
   virtual_env (scenario_world\<lparr>requirements := Absent, virtual_env := None\<rparr>) = None \<and>
   check_result test_venv_is_active
     (scenario_world\<lparr>requirements := Absent, virtual_env := None\<rparr>) initial \<noteq> CheckFailed"
  by (simp add: check_result_venv_is_active scenario_world_def)

text \<open>
  C7, amended. When the requirements file exists, the activation check passes exactly when
  \<open>VIRTUAL_ENV\<close> is set and non-empty and fails exactly when it is unset or empty; when the
  file is absent the check is skipped. In no case does the result depend on whether the
  folder exists, and the test method itself reads nothing but \<open>VIRTUAL_ENV\<close> and never
  raises.
\<close>

theorem activation_check_result:
  "(isfile (requirements w) \<longrightarrow>
      (check_result test_venv_is_active w st = CheckPassed \<longleftrightarrow>
         (\<exists>s. virtual_env w = Some s \<and> s \<noteq> [])) \<and>
      (check_result test_venv_is_active w st = CheckFailed \<longleftrightarrow>
         virtual_env w = None \<or> virtual_env w = Some [])) \<and>
   (\<not> isfile (requirements w) \<longrightarrow> check_result test_venv_is_active w st = CheckSkipped) \<and>
   check_result test_venv_is_active (w\<lparr>venv_isdir := b\<rparr>) st =
     check_result test_venv_is_active w st \<and>
   test_venv_is_active (w\<lparr>venv_isdir := b, requirements := r, pip_show := q\<rparr>) st =
     test_venv_is_active w st \<and>
   fst (test_venv_is_active w st) = None"
proof -
  have falsy: "getenv_falsy (virtual_env w) \<longleftrightarrow> virtual_env w = None \<or> virtual_env w = Some []"
    by (simp add: getenv_falsy_def split: option.splits)
  have truthy: "\<not> getenv_falsy (virtual_env w) \<longleftrightarrow> (\<exists>s. virtual_env w = Some s \<and> s \<noteq> [])"
    by (simp add: getenv_falsy_def split: option.splits)
  have "isfile (requirements w) \<longrightarrow>
      (check_result test_venv_is_active w st = CheckPassed \<longleftrightarrow>
         (\<exists>s. virtual_env w = Some s \<and> s \<noteq> [])) \<and>
      (check_result test_venv_is_active w st = CheckFailed \<longleftrightarrow>
         virtual_env w = None \<or> virtual_env w = Some [])"
    using falsy truthy by (simp add: check_result_venv_is_active)
  moreover have "\<not> isfile (requirements w) \<longrightarrow>
      check_result test_venv_is_active w st = CheckSkipped"
    by (simp add: check_result_venv_is_active)
  moreover have "check_result test_venv_is_active (w\<lparr>venv_isdir := b\<rparr>) st =
      check_result test_venv_is_active w st"
    by (simp add: check_result_venv_is_active)
  moreover have
    "test_venv_is_active (w\<lparr>venv_isdir := b, requirements := r, pip_show := q\<rparr>) st =
       test_venv_is_active w st"
    "fst (test_venv_is_active w st) = None"
    by (simp_all add: test_venv_is_active_def)
  ultimately show ?thesis by blast
qed

theorem activation_check_result_witness:
  "isfile (requirements scenario_world) \<and>
   check_result test_venv_is_active scenario_world initial = CheckPassed \<and>
   check_result test_venv_is_active (scenario_world\<lparr>venv_isdir := False\<rparr>) initial =
     CheckPassed \<and>
   isfile (requirements (scenario_world\<lparr>virtual_env := Some []\<rparr>)) \<and>
   check_result test_venv_is_active (scenario_world\<lparr>virtual_env := Some []\<rparr>) initial =
     CheckFailed \<and>
   \<not> isfile (requirements (scenario_world\<lparr>requirements := Absent\<rparr>)) \<and>
   check_result test_venv_is_active (scenario_world\<lparr>requirements := Absent\<rparr>) initial =
     CheckSkipped"
proof -
  have f1: "isfile (requirements scenario_world)"
    and v1: "\<exists>s. virtual_env scenario_world = Some s \<and> s \<noteq> []"
    by (simp_all add: scenario_world_def)
  have f2: "isfile (requirements (scenario_world\<lparr>virtual_env := Some []\<rparr>))"
    and v2: "virtual_env (scenario_world\<lparr>virtual_env := Some []\<rparr>) = Some []"
    by (simp_all add: scenario_world_def)
  have f3: "\<not> isfile (requirements (scenario_world\<lparr>requirements := Absent\<rparr>))"
    by simp
  from activation_check_result [where w = scenario_world and st = initial and b = False]
    f1 v1
  have p1: "check_result test_venv_is_active scenario_world initial = CheckPassed"
    and p1': "check_result test_venv_is_active (scenario_world\<lparr>venv_isdir := False\<rparr>) initial =
      CheckPassed"
    by simp_all
  from activation_check_result [of "scenario_world\<lparr>virtual_env := Some []\<rparr>" initial] f2 v2
  have p2: "check_result test_venv_is_active (scenario_world\<lparr>virtual_env := Some []\<rparr>) initial =
      CheckFailed"
    by blast
  from activation_check_result [of "scenario_world\<lparr>requirements := Absent\<rparr>" initial] f3
  have p3: "check_result test_venv_is_active (scenario_world\<lparr>requirements := Absent\<rparr>) initial =
      CheckSkipped"
    by blast
  from f1 f2 f3 p1 p1' p2 p3 show ?thesis by blast
qed

text \<open>
  C9, as the claim states it, fails for the skipped precondition: in a project whose
  folder exists and whose environment is active both checks pass, and with nothing changed
  but the requirements file removed, neither of them runs; the run consists of the three
  records of \<open>setUp\<close>.
\<close>

theorem skipped_precondition_counterexample:
  "check_result test_venv_exists scenario_world initial = CheckPassed \<and>
   check_result test_venv_is_active scenario_world initial = CheckPassed \<and>
   check_result test_requirements_installed (scenario_world\<lparr>requirements := Absent\<rparr>) initial =
     CheckSkipped \<and>
   check_result test_venv_exists (scenario_world\<lparr>requirements := Absent\<rparr>) initial =
     CheckSkipped \<and>
   check_result test_venv_is_active (scenario_world\<lparr>requirements := Absent\<rparr>) initial =
     CheckSkipped \<and>
   out (snd (main (scenario_world\<lparr>requirements := Absent\<rparr>))) =
     [Log ERROR ''requirements.txt file is missing.'',
      Log ERROR ''requirements.txt file is missing.'',
      Log ERROR ''requirements.txt file is missing.'']"
  by (simp add: check_result_venv_exists check_result_venv_is_active check_result_absent
        main_def run_test_absent scenario_world_def getenv_falsy_def initial_def)

text \<open>
  C9, amended. A missing folder, an inactive environment and a missing dependency are
  handled inside the check that detects them: the check writes error-level records, calls
  the non-raising \<open>fail\<close> and returns normally. A missing requirements file is detected by
  the shared \<open>setUp\<close>, logged at error level and raised as a skip that the runner records;
  it skips every check. The runner starts all three checks in every run, and the outcome
  of each is the same from whatever state the earlier checks left; with the file present
  the existence and the activation check always return normally.
\<close>

theorem failures_handled_by_checks:
  "(isfile (requirements w) \<and> \<not> venv_isdir w \<longrightarrow>
      run_test test_venv_exists w st =
        (Success,
         st\<lparr>out := out st @
                  [Log ERROR ''.venv folder not found.'',
                   Log ERROR ''Test Failed: Virtual environment (.venv) not found.'',
                   Print ''Test Failed: Virtual environment (.venv) not found.'']\<rparr>)) \<and>
   (isfile (requirements w) \<and> getenv_falsy (virtual_env w) \<longrightarrow>
      run_test test_venv_is_active w st =
        (Success,
         st\<lparr>out := out st @
                  [Log ERROR ''Virtual environment is not active.'',
                   Log ERROR ''Test Failed: Virtual environment is not active. Please activate .venv.'',
                   Print ''Test Failed: Virtual environment is not active. Please activate .venv.'']\<rparr>)) \<and>
   (requirements w = Lines f \<and>
    (\<forall>p \<in> set (required_packages f). pip_show w p \<noteq> SpawnFailed) \<and>
    (\<exists>p \<in> set (required_packages f). pip_show w p \<noteq> Exited 0) \<longrightarrow>
      fst (run_test test_requirements_installed w st) = Success \<and>
      Log ERROR (''Missing required packages: '' @
                 join '', '' (filter (\<lambda>p. pip_show w p \<noteq> Exited 0) (required_packages f)))
        \<in> set (emitted st (snd (run_test test_requirements_installed w st))) \<and>
      Log ERROR ''Test Failed: Some packages from requirements.txt are not installed in the virtual environment.''
        \<in> set (emitted st (snd (run_test test_requirements_installed w st)))) \<and>
   (requirements w = Absent \<longrightarrow>
      run_test test_method w st =
        (Skipped ''requirements.txt file is missing.'',
         st\<lparr>out := out st @ [Log ERROR ''requirements.txt file is missing.'']\<rparr>)) \<and>
   fst (main w) =
     [fst (run_test test_requirements_installed w s1),
      fst (run_test test_venv_exists w s2),
      fst (run_test test_venv_is_active w s3)] \<and>
   (isfile (requirements w) \<longrightarrow>
      fst (run_test test_venv_exists w st) = Success \<and>
      fst (run_test test_venv_is_active w st) = Success)"
proof -
  have a: "isfile (requirements w) \<and> \<not> venv_isdir w \<longrightarrow>
      run_test test_venv_exists w st =
        (Success,
         st\<lparr>out := out st @
                  [Log ERROR ''.venv folder not found.'',
                   Log ERROR ''Test Failed: Virtual environment (.venv) not found.'',
                   Print ''Test Failed: Virtual environment (.venv) not found.'']\<rparr>)"
    by (simp add: run_test_present test_venv_exists_def RECOMMENDED_VENV_NAME_def fail_def
          logging_error_def print_def emit_def)
  have b: "isfile (requirements w) \<and> getenv_falsy (virtual_env w) \<longrightarrow>
      run_test test_venv_is_active w st =
        (Success,
         st\<lparr>out := out st @
                  [Log ERROR ''Virtual environment is not active.'',
                   Log ERROR ''Test Failed: Virtual environment is not active. Please activate .venv.'',
                   Print ''Test Failed: Virtual environment is not active. Please activate .venv.'']\<rparr>)"
    by (simp add: run_test_present test_venv_is_active_def RECOMMENDED_VENV_NAME_def fail_def
          logging_error_def print_def emit_def)
  have c: "requirements w = Lines f \<and>
    (\<forall>p \<in> set (required_packages f). pip_show w p \<noteq> SpawnFailed) \<and>
    (\<exists>p \<in> set (required_packages f). pip_show w p \<noteq> Exited 0) \<longrightarrow>
      fst (run_test test_requirements_installed w st) = Success \<and>
      Log ERROR (''Missing required packages: '' @
                 join '', '' (filter (\<lambda>p. pip_show w p \<noteq> Exited 0) (required_packages f)))
        \<in> set (emitted st (snd (run_test test_requirements_installed w st))) \<and>
      Log ERROR ''Test Failed: Some packages from requirements.txt are not installed in the virtual environment.''
        \<in> set (emitted st (snd (run_test test_requirements_installed w st)))"
  proof (intro impI, elim conjE)
    assume h: "requirements w = Lines f"
      "\<forall>p \<in> set (required_packages f). pip_show w p \<noteq> SpawnFailed"
      "\<exists>p \<in> set (required_packages f). pip_show w p \<noteq> Exited 0"
    show "fst (run_test test_requirements_installed w st) = Success \<and>
      Log ERROR (''Missing required packages: '' @
                 join '', '' (filter (\<lambda>p. pip_show w p \<noteq> Exited 0) (required_packages f)))
        \<in> set (emitted st (snd (run_test test_requirements_installed w st))) \<and>
      Log ERROR ''Test Failed: Some packages from requirements.txt are not installed in the virtual environment.''
        \<in> set (emitted st (snd (run_test test_requirements_installed w st)))"
      by (simp add: run_test_requirements_missing [OF h] emitted_def)
  qed
  have d: "requirements w = Absent \<longrightarrow>
      run_test test_method w st =
        (Skipped ''requirements.txt file is missing.'',
         st\<lparr>out := out st @ [Log ERROR ''requirements.txt file is missing.'']\<rparr>)"
    by (simp add: run_test_absent logging_error_def emit_def)
  obtain o1 t1 where r1: "run_test test_requirements_installed w initial = (o1, t1)"
    by (cases "run_test test_requirements_installed w initial")
  obtain o2 t2 where r2: "run_test test_venv_exists w t1 = (o2, t2)"
    by (cases "run_test test_venv_exists w t1")
  obtain o3 t3 where r3: "run_test test_venv_is_active w t2 = (o3, t3)"
    by (cases "run_test test_venv_is_active w t2")
  have "o1 = fst (run_test test_requirements_installed w s1)"
    using r1 outcome_requirements_installed [of w initial]
    by (simp add: outcome_requirements_installed [of w s1])
  moreover have "o2 = fst (run_test test_venv_exists w s2)"
    using r2 outcome_venv_checks(1) [of w t1] by (simp add: outcome_venv_checks(1) [of w s2])
  moreover have "o3 = fst (run_test test_venv_is_active w s3)"
    using r3 outcome_venv_checks(2) [of w t2] by (simp add: outcome_venv_checks(2) [of w s3])
  ultimately have e: "fst (main w) =
     [fst (run_test test_requirements_installed w s1),
      fst (run_test test_venv_exists w s2),
      fst (run_test test_venv_is_active w s3)]"
    by (simp add: main_def r1 r2 r3)
  have g: "isfile (requirements w) \<longrightarrow>
      fst (run_test test_venv_exists w st) = Success \<and>
      fst (run_test test_venv_is_active w st) = Success"
    by (simp add: outcome_venv_checks)
  from a b c d e g show ?thesis by blast
qed

theorem failures_handled_by_checks_witness:
  "fst (run_test test_venv_exists (scenario_world\<lparr>venv_isdir := False\<rparr>) initial) = Success \<and>
   fst (run_test test_venv_is_active (scenario_world\<lparr>virtual_env := None\<rparr>) initial) = Success \<and>
   fst (run_test test_requirements_installed scenario_world initial) = Success \<and>
   fst (run_test test_venv_exists (scenario_world\<lparr>requirements := Absent\<rparr>) initial) =
     Skipped ''requirements.txt file is missing.''"
proof -
  let ?f = "[''requests'' @ [CHR 0x0A], ''# comment'' @ [CHR 0x0A],
             [CHR 0x0A], ''flask'' @ [CHR 0x0A]]"
  have req: "required_packages ?f = [''requests'', ''flask'']"
    by (simp add: strip_def isspace_def)
  have ha: "isfile (requirements (scenario_world\<lparr>venv_isdir := False\<rparr>)) \<and>
            \<not> venv_isdir (scenario_world\<lparr>venv_isdir := False\<rparr>)"
    by (simp add: scenario_world_def)
  have hb: "isfile (requirements (scenario_world\<lparr>virtual_env := None\<rparr>)) \<and>
            getenv_falsy (virtual_env (scenario_world\<lparr>virtual_env := None\<rparr>))"
    by (simp add: scenario_world_def getenv_falsy_def)
  have hc: "requirements scenario_world = Lines ?f \<and>
    (\<forall>p \<in> set (required_packages ?f). pip_show scenario_world p \<noteq> SpawnFailed) \<and>
    (\<exists>p \<in> set (required_packages ?f). pip_show scenario_world p \<noteq> Exited 0)"
    unfolding req by (simp add: scenario_world_def)
  have hd: "requirements (scenario_world\<lparr>requirements := Absent\<rparr>) = Absent"
    by simp
  from ha failures_handled_by_checks
         [where w = "scenario_world\<lparr>venv_isdir := False\<rparr>" and st = initial]
  have "fst (run_test test_venv_exists (scenario_world\<lparr>venv_isdir := False\<rparr>) initial) = Success"
    by simp
  moreover from hb failures_handled_by_checks
         [where w = "scenario_world\<lparr>virtual_env := None\<rparr>" and st = initial]
  have "fst (run_test test_venv_is_active (scenario_world\<lparr>virtual_env := None\<rparr>) initial) =
          Success"
    by simp
  moreover from hc failures_handled_by_checks
         [where w = scenario_world and st = initial and f = ?f]
  have "fst (run_test test_requirements_installed scenario_world initial) = Success"
    by blast
  moreover from hd failures_handled_by_checks
         [where w = "scenario_world\<lparr>requirements := Absent\<rparr>" and st = initial
            and test_method = test_venv_exists]
  have "fst (run_test test_venv_exists (scenario_world\<lparr>requirements := Absent\<rparr>) initial) =
          Skipped ''requirements.txt file is missing.''"
    by simp
  ultimately show ?thesis by blast
qed

text \<open>
  C1. The loop catches \<open>CalledProcessError\<close> only. Where no query process can be started,
  \<open>check_call\<close> raises \<open>OSError\<close> at the first requirement: it leaves the loop and the
  test method, the package is not added to the missing list, the second requirement is
  never queried, and the runner records an error.
\<close>

theorem spawn_failure_escapes_check:
  "run_test test_requirements_installed no_spawn_world initial =
     (Errored OSError, \<lparr>progress = 0, out = [], spawned = [''requests'']\<rparr>) \<and>
   check_result test_requirements_installed no_spawn_world initial = CheckErrored"
  by (simp add: check_result_def run_test_def setUp_def test_requirements_installed_def
        check_call_def no_spawn_world_def scenario_world_def initial_def strip_def isspace_def)

text \<open>
  C2. In a project without the folder and without an activated environment both checks
  fail, and the whole output of the run is the records and lines below: \<open>fail\<close> prints the
  one-line message only, and neither guide text is printed or logged.
\<close>

theorem guides_not_printed:
  "check_result test_venv_exists
     (installed_world\<lparr>venv_isdir := False, virtual_env := None\<rparr>) initial = CheckFailed \<and>
   check_result test_venv_is_active
     (installed_world\<lparr>venv_isdir := False, virtual_env := None\<rparr>) initial = CheckFailed \<and>
   out (snd (main (installed_world\<lparr>venv_isdir := False, virtual_env := None\<rparr>))) =
     [Log INFO ''Required requests is installed.'',
      Log INFO ''Required flask is installed.'',
      Log INFO ''All packages in requirements.txt are installed.'',
      Log INFO ''Progress: 34%.'',
      Log ERROR ''.venv folder not found.'',
      Log ERROR ''Test Failed: Virtual environment (.venv) not found.'',
      Print ''Test Failed: Virtual environment (.venv) not found.'',
      Log ERROR ''Virtual environment is not active.'',
      Log ERROR ''Test Failed: Virtual environment is not active. Please activate .venv.'',
      Print ''Test Failed: Virtual environment is not active. Please activate .venv.''] \<and>
   Print GUIDE_IF_DOT_VENV_MISSING \<notin>
     set (out (snd (main (installed_world\<lparr>venv_isdir := False, virtual_env := None\<rparr>)))) \<and>
   Print GUIDE_IF_INACTIVE \<notin>
     set (out (snd (main (installed_world\<lparr>venv_isdir := False, virtual_env := None\<rparr>))))"
proof -
  let ?w = "installed_world\<lparr>venv_isdir := False, virtual_env := None\<rparr>"
  have run: "out (snd (main ?w)) =
     [Log INFO ''Required requests is installed.'',
      Log INFO ''Required flask is installed.'',
      Log INFO ''All packages in requirements.txt are installed.'',
      Log INFO ''Progress: 34%.'',
      Log ERROR ''.venv folder not found.'',
      Log ERROR ''Test Failed: Virtual environment (.venv) not found.'',
      Print ''Test Failed: Virtual environment (.venv) not found.'',
      Log ERROR ''Virtual environment is not active.'',
      Log ERROR ''Test Failed: Virtual environment is not active. Please activate .venv.'',
      Print ''Test Failed: Virtual environment is not active. Please activate .venv.'']"
    by (simp add: main_def run_test_def setUp_def test_requirements_installed_def
          test_venv_exists_def test_venv_is_active_def check_call_def getenv_falsy_def
          installed_world_def scenario_world_def initial_def strip_def isspace_def
          log_progress_def str_int_def str_nat.simps fail_def logging_info_def
          logging_error_def print_def emit_def RECOMMENDED_VENV_NAME_def
          RECOMMENDED_REQUIREMENTS_FILE_NAME_def)
  have res: "check_result test_venv_exists ?w initial = CheckFailed"
    "check_result test_venv_is_active ?w initial = CheckFailed"
    by (simp_all add: check_result_venv_exists check_result_venv_is_active
          installed_world_def scenario_world_def getenv_falsy_def)
  have "Print GUIDE_IF_DOT_VENV_MISSING \<notin> set (out (snd (main ?w)))"
    "Print GUIDE_IF_INACTIVE \<notin> set (out (snd (main ?w)))"
    unfolding run by (simp_all add: GUIDE_IF_DOT_VENV_MISSING_def GUIDE_IF_INACTIVE_def
        raw_lines_def)
  with run res show ?thesis by simp
qed

end
